theory Spec2Isabelle
  imports Complex_Main "HOL-Library.AList" "HOL-Library.Multiset"
begin

section \<open>Data model of Ecommerce.py\<close>

text \<open>
  Python's \<open>decimal.Decimal\<close> belongs to the standard library. A value of it is
  modelled by the rational number it denotes, and \<open>*\<close>, \<open>+\<close> and \<open><\<close> are the
  exact operations on these numbers, which is what Decimal computes as long as a result
  fits the precision of the arithmetic context (28 significant digits by default).
  NaN and the infinities are outside the model.
\<close>

type_synonym decimal = rat

text \<open>The exceptions that the program raises or that its built-ins raise.\<close>

datatype exn = ValueError | InvalidOperation | EOFError

record pessoa =
  nome :: string
  cpf :: string
  email :: string

record cliente =
  pessoa :: pessoa
  id_cliente :: string

record produto =
  nome :: string
  preco :: decimal
  estoque :: int

text \<open>
  A \<open>Produto\<close> is a mutable object shared between the dictionary of the menu and the
  items of the orders, so products live in a store and are named by their position in
  it. A new object is allocated at the end of the store.
\<close>

type_synonym ref = nat

record item_pedido =
  produto :: ref
  quantidade :: int

record pedido =
  cliente :: cliente
  itens :: "item_pedido list"

subsection \<open>Constructors and totals\<close>

definition Pessoa_init :: "string \<Rightarrow> string \<Rightarrow> string \<Rightarrow> pessoa" where
  "Pessoa_init n c e = \<lparr>pessoa.nome = n, cpf = c, email = e\<rparr>"

definition Cliente_init :: "pessoa \<Rightarrow> string \<Rightarrow> cliente" where
  \<comment> \<open>the second argument is the text that \<open>str(uuid.uuid4())\<close> returned\<close>
  "Cliente_init p uid = \<lparr>pessoa = p, id_cliente = uid\<rparr>"

definition Produto_init :: "string \<Rightarrow> decimal \<Rightarrow> int \<Rightarrow> exn + produto" where
  "Produto_init n p e =
     (if p < 0 \<or> e < 0 then Inl ValueError
      else Inr \<lparr>produto.nome = n, preco = p, estoque = e\<rparr>)"

definition ItemPedido_init :: "ref \<Rightarrow> int \<Rightarrow> exn + item_pedido" where
  "ItemPedido_init r q =
     (if q \<le> 0 then Inl ValueError
      else Inr \<lparr>produto = r, quantidade = q\<rparr>)"

definition ItemPedido_calcular_total :: "produto list \<Rightarrow> item_pedido \<Rightarrow> decimal" where
  "ItemPedido_calcular_total h it = preco (h ! produto it) * of_int (quantidade it)"

definition Pedido_init :: "cliente \<Rightarrow> pedido" where
  "Pedido_init c = \<lparr>cliente = c, itens = []\<rparr>"

definition adicionar_item :: "pedido \<Rightarrow> ref \<Rightarrow> int \<Rightarrow> exn + pedido" where
  "adicionar_item ped r q =
     (case ItemPedido_init r q of
        Inl e \<Rightarrow> Inl e
      | Inr it \<Rightarrow> Inr (ped\<lparr>itens := itens ped @ [it]\<rparr>))"

text \<open>\<open>sum\<close> starts from 0 and adds the subtotals from left to right.\<close>

definition Pedido_calcular_total :: "produto list \<Rightarrow> pedido \<Rightarrow> decimal" where
  "Pedido_calcular_total h ped =
     foldl (\<lambda>acc it. acc + ItemPedido_calcular_total h it) 0 (itens ped)"

section \<open>The process around the menu\<close>

text \<open>
  Every call of \<open>print\<close> and every prompt of \<open>input\<close> is an event of the output;
  an event carries the values that the source formats into the printed line.
\<close>

datatype prompt =
    PNomeProdutoOuFim | PQuantidade | PEscolha | PNome | PCpf | PEmail
  | PNomeDoProduto | PPreco | PEstoque | PCpfDoCliente

datatype out =
    Prompt prompt
  | ClienteCadastrado cliente
  | ProdutoCadastrado produto
  | ClienteNaoEncontrado
  | ProdutosDisponiveis
  | ProdutoDisponivel string decimal int
  | ProdutoNaoEncontrado
  | EstoqueInsuficiente
  | QuantidadeInvalida
  | TotalDoPedido decimal
  | PedidoCabecalho nat string
  | ItemLinha string int decimal
  | Total decimal
  | MenuTitulo
  | MenuLinha string
  | Saindo
  | OpcaoInvalida

text \<open>
  The attributes of \<open>Menu\<close> (\<open>clientes\<close>, \<open>produtos\<close>, \<open>pedidos\<close>) together with the
  store of the \<open>Produto\<close> objects, the lines still to be read from standard input, the
  output so far and the number of identifiers drawn from \<open>uuid.uuid4\<close>. A dictionary
  keeps the order of insertion, and an assignment to a key that is present keeps the
  key's place: this is \<open>AList.update\<close>, with \<open>map_of\<close> for \<open>get\<close>.
\<close>

record world =
  clientes :: "(string \<times> cliente) list"
  produtos :: "(string \<times> ref) list"
  pedidos :: "pedido list"
  store :: "produto list"
  stdin :: "string list"
  stdout :: "out list"
  uuids :: nat

text \<open>
  The library functions whose results the program only passes on: \<open>int\<close> and
  \<open>Decimal\<close> applied to a line of text (\<open>None\<close> when they raise, \<open>ValueError\<close> and
  \<open>decimal.InvalidOperation\<close> respectively), and the identifiers that \<open>uuid4\<close> yields.
\<close>

record env =
  py_int :: "string \<Rightarrow> int option"
  py_decimal :: "string \<Rightarrow> decimal option"
  uuid4 :: "nat \<Rightarrow> string"

type_synonym 'a result = "exn \<times> world + 'a"

definition py_print :: "out list \<Rightarrow> world \<Rightarrow> world" where
  "py_print os w = w\<lparr>stdout := stdout w @ os\<rparr>"

definition py_input :: "prompt \<Rightarrow> world \<Rightarrow> (string \<times> world) result" where
  "py_input p w =
     (case stdin w of
        [] \<Rightarrow> Inl (EOFError, py_print [Prompt p] w)
      | l # ls \<Rightarrow> Inr (l, (py_print [Prompt p] w)\<lparr>stdin := ls\<rparr>))"

text \<open>
  \<open>str.lower\<close>, on the letters A to Z. Outside ASCII Python's \<open>lower\<close> yields no
  \<open>f\<close>, \<open>i\<close> or \<open>m\<close>, so the comparison with \<open>'fim'\<close> is the same.
\<close>

definition lower_char :: "char \<Rightarrow> char" where
  "lower_char c =
     (let n = (of_char c :: nat) in if 65 \<le> n \<and> n \<le> 90 then char_of (n + 32) else c)"

definition str_lower :: "string \<Rightarrow> string" where
  "str_lower s = map lower_char s"

section \<open>The class Menu\<close>

definition Menu_init :: "string list \<Rightarrow> world" where
  "Menu_init ins =
     \<lparr>clientes = [], produtos = [], pedidos = [], store = [],
      stdin = ins, stdout = [], uuids = 0\<rparr>"

definition cadastrar_cliente :: "env \<Rightarrow> world \<Rightarrow> string \<Rightarrow> string \<Rightarrow> string \<Rightarrow> world" where
  "cadastrar_cliente E w n c e =
     (let p = Pessoa_init n c e;
          cl = Cliente_init p (uuid4 E (uuids w))
      in py_print [ClienteCadastrado cl]
           (w\<lparr>clientes := AList.update c cl (clientes w), uuids := Suc (uuids w)\<rparr>))"

definition cadastrar_produto :: "world \<Rightarrow> string \<Rightarrow> decimal \<Rightarrow> int \<Rightarrow> world result" where
  "cadastrar_produto w n p e =
     (case Produto_init n p e of
        Inl x \<Rightarrow> Inl (x, w)
      | Inr novo \<Rightarrow>
          Inr (py_print [ProdutoCadastrado novo]
                 (w\<lparr>produtos := AList.update n (length (store w)) (produtos w),
                    store := store w @ [novo]\<rparr>)))"

subsection \<open>criar\_pedido\<close>

definition disponiveis :: "world \<Rightarrow> out list" where
  "disponiveis w =
     map (\<lambda>(n, r). ProdutoDisponivel n (preco (store w ! r)) (estoque (store w ! r)))
       (produtos w)"

text \<open>
  One pass of the loop after the test for \<open>fim\<close> (lines 181 to 193): the look-up of the
  product, the quantity read inside \<open>try\<close>, the test against the stock, the new item and
  the debit. \<open>except ValueError\<close> catches only that exception.
\<close>

definition add_line :: "env \<Rightarrow> world \<Rightarrow> pedido \<Rightarrow> string \<Rightarrow> (world \<times> pedido) result" where
  "add_line E w ped nome_produto =
     (case map_of (produtos w) nome_produto of
        None \<Rightarrow> Inr (py_print [ProdutoNaoEncontrado] w, ped)
      | Some r \<Rightarrow>
          (case py_input PQuantidade w of
             Inl x \<Rightarrow> Inl x
           | Inr (txt, w1) \<Rightarrow>
               (case py_int E txt of
                  None \<Rightarrow> Inr (py_print [QuantidadeInvalida] w1, ped)
                | Some q \<Rightarrow>
                    if q > estoque (store w1 ! r)
                    then Inr (py_print [EstoqueInsuficiente] w1, ped)
                    else (case adicionar_item ped r q of
                            Inl ValueError \<Rightarrow> Inr (py_print [QuantidadeInvalida] w1, ped)
                          | Inl x \<Rightarrow> Inl (x, w1)
                          | Inr ped' \<Rightarrow>
                              Inr (w1\<lparr>store := (store w1)
                                     [r := (store w1 ! r)
                                        \<lparr>estoque := estoque (store w1 ! r) - q\<rparr>]\<rparr>,
                                   ped')))))"

lemma py_input_stdin: "py_input p w = Inr (l, w') \<Longrightarrow> stdin w = l # stdin w'"
  by (auto simp: py_input_def py_print_def split: list.splits)

lemma add_line_stdin:
  "add_line E w ped n = Inr (w', ped') \<Longrightarrow> length (stdin w') \<le> length (stdin w)"
  by (auto simp: add_line_def py_print_def dest!: py_input_stdin
           split: option.splits sum.splits if_splits exn.splits)

function criar_pedido_loop :: "env \<Rightarrow> world \<Rightarrow> pedido \<Rightarrow> (world \<times> pedido) result" where
  "criar_pedido_loop E w ped =
     (case py_input PNomeProdutoOuFim (py_print (ProdutosDisponiveis # disponiveis w) w) of
        Inl x \<Rightarrow> Inl x
      | Inr (nome_produto, w1) \<Rightarrow>
          if str_lower nome_produto = ''fim'' then Inr (w1, ped)
          else (case add_line E w1 ped nome_produto of
                  Inl x \<Rightarrow> Inl x
                | Inr (w2, ped') \<Rightarrow> criar_pedido_loop E w2 ped'))"
  by pat_completeness auto
termination
  apply (relation "measure (\<lambda>(E, w, ped). length (stdin w))")
   apply simp
  apply (auto dest!: py_input_stdin add_line_stdin simp: py_print_def)
  done

declare criar_pedido_loop.simps [simp del]

definition criar_pedido :: "env \<Rightarrow> world \<Rightarrow> string \<Rightarrow> world result" where
  "criar_pedido E w c =
     (case map_of (clientes w) c of
        None \<Rightarrow> Inr (py_print [ClienteNaoEncontrado] w)
      | Some cl \<Rightarrow>
          (case criar_pedido_loop E w (Pedido_init cl) of
             Inl x \<Rightarrow> Inl x
           | Inr (w1, ped) \<Rightarrow>
               Inr ((py_print [TotalDoPedido (Pedido_calcular_total (store w1) ped)] w1)
                      \<lparr>pedidos := pedidos w1 @ [ped]\<rparr>)))"

lemma criar_pedido_loop_stdin:
  "criar_pedido_loop E w ped = Inr (w', ped') \<Longrightarrow> length (stdin w') < length (stdin w)"
proof (induction E w ped rule: criar_pedido_loop.induct)
  case (1 E w ped)
  from "1.prems" obtain nome_produto w1 where
    inp: "py_input PNomeProdutoOuFim (py_print (ProdutosDisponiveis # disponiveis w) w)
          = Inr (nome_produto, w1)"
    by (subst (asm) criar_pedido_loop.simps) (auto split: sum.splits)
  then have len: "stdin w = nome_produto # stdin w1"
    by (auto dest!: py_input_stdin simp: py_print_def)
  show ?case
  proof (cases "str_lower nome_produto = ''fim''")
    case True
    with "1.prems" inp have "w' = w1"
      by (subst (asm) criar_pedido_loop.simps) simp
    with len show ?thesis by simp
  next
    case False
    with "1.prems" inp obtain w2 ped2 where
      al: "add_line E w1 ped nome_produto = Inr (w2, ped2)" and
      rec: "criar_pedido_loop E w2 ped2 = Inr (w', ped')"
      by (subst (asm) criar_pedido_loop.simps) (auto split: sum.splits)
    from "1.IH" [OF inp refl False al refl rec]
    have "length (stdin w') < length (stdin w2)" .
    moreover from al have "length (stdin w2) \<le> length (stdin w1)"
      by (rule add_line_stdin)
    ultimately show ?thesis using len by simp
  qed
qed

lemma criar_pedido_stdin:
  "criar_pedido E w c = Inr w' \<Longrightarrow> length (stdin w') \<le> length (stdin w)"
  by (auto simp: criar_pedido_def py_print_def split: option.splits sum.splits
           dest!: criar_pedido_loop_stdin)

subsection \<open>listar\_pedidos\<close>

definition item_linha :: "produto list \<Rightarrow> item_pedido \<Rightarrow> out" where
  "item_linha h it =
     ItemLinha (produto.nome (h ! produto it)) (quantidade it) (ItemPedido_calcular_total h it)"

text \<open>
  The two nested loops; \<open>idx\<close> is the counter of \<open>enumerate\<close>, and \<open>bloco\<close> is what
  one pass of the outer loop prints.
\<close>

definition bloco :: "produto list \<Rightarrow> nat \<Rightarrow> pedido \<Rightarrow> out list" where
  "bloco h idx ped =
     PedidoCabecalho idx (pessoa.nome (pessoa (cliente ped)))
       # map (item_linha h) (itens ped)
       @ [Total (Pedido_calcular_total h ped)]"

fun listar_de :: "produto list \<Rightarrow> nat \<Rightarrow> pedido list \<Rightarrow> out list" where
  "listar_de h idx [] = []"
| "listar_de h idx (ped # peds) = bloco h idx ped @ listar_de h (Suc idx) peds"

definition listar_pedidos :: "world \<Rightarrow> world" where
  "listar_pedidos w = py_print (listar_de (store w) 1 (pedidos w)) w"

subsection \<open>exibir\_menu\<close>

definition menu_texto :: "out list" where
  "menu_texto =
     [MenuTitulo, MenuLinha ''1. Cadastrar cliente'', MenuLinha ''2. Cadastrar produto'',
      MenuLinha ''3. Criar pedido'', MenuLinha ''4. Listar pedidos'', MenuLinha ''0. Sair'']"

text \<open>
  The chain of tests on the option (lines 214 to 233). The result says whether the loop
  goes on (\<open>False\<close> after \<open>break\<close>). No branch has a handler, so an exception of
  \<open>Decimal\<close>, \<open>int\<close> or \<open>Produto\<close> leaves the loop.
\<close>

definition opcao_menu :: "env \<Rightarrow> world \<Rightarrow> string \<Rightarrow> (world \<times> bool) result" where
  "opcao_menu E w opcao =
     (if opcao = ''1'' then
        (case py_input PNome w of Inl x \<Rightarrow> Inl x | Inr (n, w1) \<Rightarrow>
         (case py_input PCpf w1 of Inl x \<Rightarrow> Inl x | Inr (c, w2) \<Rightarrow>
          (case py_input PEmail w2 of Inl x \<Rightarrow> Inl x | Inr (e, w3) \<Rightarrow>
             Inr (cadastrar_cliente E w3 n c e, True))))
      else if opcao = ''2'' then
        (case py_input PNomeDoProduto w of Inl x \<Rightarrow> Inl x | Inr (n, w1) \<Rightarrow>
         (case py_input PPreco w1 of Inl x \<Rightarrow> Inl x | Inr (tp, w2) \<Rightarrow>
          (case py_decimal E tp of None \<Rightarrow> Inl (InvalidOperation, w2) | Some p \<Rightarrow>
           (case py_input PEstoque w2 of Inl x \<Rightarrow> Inl x | Inr (te, w3) \<Rightarrow>
            (case py_int E te of None \<Rightarrow> Inl (ValueError, w3) | Some e \<Rightarrow>
             (case cadastrar_produto w3 n p e of Inl x \<Rightarrow> Inl x
              | Inr w4 \<Rightarrow> Inr (w4, True)))))))
      else if opcao = ''3'' then
        (case py_input PCpfDoCliente w of Inl x \<Rightarrow> Inl x | Inr (c, w1) \<Rightarrow>
         (case criar_pedido E w1 c of Inl x \<Rightarrow> Inl x | Inr w2 \<Rightarrow> Inr (w2, True)))
      else if opcao = ''4'' then Inr (listar_pedidos w, True)
      else if opcao = ''0'' then Inr (py_print [Saindo] w, False)
      else Inr (py_print [OpcaoInvalida] w, True))"

lemma cadastrar_produto_stdin: "cadastrar_produto w n p e = Inr w' \<Longrightarrow> stdin w' = stdin w"
  by (auto simp: cadastrar_produto_def py_print_def split: sum.splits)

lemma opcao_menu_stdin:
  "opcao_menu E w opcao = Inr (w', b) \<Longrightarrow> length (stdin w') \<le> length (stdin w)"
  by (auto simp: opcao_menu_def cadastrar_cliente_def listar_pedidos_def py_print_def Let_def
           split: if_splits sum.splits option.splits
           dest!: py_input_stdin criar_pedido_stdin cadastrar_produto_stdin)

function exibir_menu :: "env \<Rightarrow> world \<Rightarrow> world result" where
  "exibir_menu E w =
     (case py_input PEscolha (py_print menu_texto w) of
        Inl x \<Rightarrow> Inl x
      | Inr (opcao, w1) \<Rightarrow>
          (case opcao_menu E w1 opcao of
             Inl x \<Rightarrow> Inl x
           | Inr (w2, continua) \<Rightarrow> if continua then exibir_menu E w2 else Inr w2))"
  by pat_completeness auto
termination
  apply (relation "measure (\<lambda>(E, w). length (stdin w))")
   apply simp
  apply (auto dest!: py_input_stdin opcao_menu_stdin simp: py_print_def)
  done

declare exibir_menu.simps [simp del]

section \<open>Reachable worlds\<close>

text \<open>
  The world in which an operation ends, whether it returns or raises.
\<close>

definition mundo :: "('a \<Rightarrow> world) \<Rightarrow> 'a result \<Rightarrow> world" where
  "mundo f res = (case res of Inl (x, w) \<Rightarrow> w | Inr a \<Rightarrow> f a)"

text \<open>
  The worlds that the program can be in: a new \<open>Menu\<close> with any input waiting, and from
  a reachable world, the world with other input waiting, and the world in which a
  registration, one pass of the order loop, the order loop, a whole order, a listing,
  the handling of one option of the menu or the menu loop ends, by returning or by an
  exception.
\<close>

inductive alcancavel :: "env \<Rightarrow> world \<Rightarrow> bool" for E :: env where
  novo: "alcancavel E (Menu_init ins)"
| entrada: "alcancavel E w \<Longrightarrow> alcancavel E (w\<lparr>stdin := ins\<rparr>)"
| cliente: "alcancavel E w \<Longrightarrow> alcancavel E (cadastrar_cliente E w n c e)"
| produto: "alcancavel E w \<Longrightarrow> alcancavel E (mundo id (cadastrar_produto w n p q))"
| linha: "alcancavel E w \<Longrightarrow> alcancavel E (mundo fst (add_line E w ped n))"
| linhas: "alcancavel E w \<Longrightarrow> alcancavel E (mundo fst (criar_pedido_loop E w ped))"
| pedido: "alcancavel E w \<Longrightarrow> alcancavel E (mundo id (criar_pedido E w c))"
| listagem: "alcancavel E w \<Longrightarrow> alcancavel E (listar_pedidos w)"
| opcao: "alcancavel E w \<Longrightarrow> alcancavel E (mundo fst (opcao_menu E w escolha))"
| menu: "alcancavel E w \<Longrightarrow> alcancavel E (mundo id (exibir_menu E w))"

text \<open>
  Every entry of the dictionary of products names an object of the store whose price
  and stock are not negative.
\<close>

definition estoque_valido :: "world \<Rightarrow> bool" where
  "estoque_valido w =
     (\<forall>(n, r) \<in> set (produtos w).
        r < length (store w) \<and> 0 \<le> preco (store w ! r) \<and> 0 \<le> estoque (store w ! r))"

section \<open>A concrete environment\<close>

text \<open>
  An instance of the library functions for running the program on concrete input: plain
  ASCII numerals with an optional minus sign, for \<open>Decimal\<close> also with a fraction after
  a point. The theorems below hold for every environment; this one is for evaluation.
\<close>

definition digito :: "char \<Rightarrow> nat option" where
  "digito c =
     (let n = (of_char c :: nat) in if 48 \<le> n \<and> n \<le> 57 then Some (n - 48) else None)"

fun numeral_de :: "nat \<Rightarrow> string \<Rightarrow> nat option" where
  "numeral_de acc [] = Some acc"
| "numeral_de acc (c # cs) =
     (case digito c of None \<Rightarrow> None | Some d \<Rightarrow> numeral_de (10 * acc + d) cs)"

definition natural_de :: "string \<Rightarrow> nat option" where
  "natural_de s = (if s = [] then None else numeral_de 0 s)"

definition inteiro_de :: "string \<Rightarrow> int option" where
  "inteiro_de s =
     (case s of
        [] \<Rightarrow> None
      | c # cs \<Rightarrow>
          if c = CHR ''-'' then map_option (\<lambda>n. - int n) (natural_de cs)
          else map_option int (natural_de s))"

definition fracao_de :: "string \<Rightarrow> decimal option" where
  "fracao_de s =
     (let a = takeWhile (\<lambda>c. c \<noteq> CHR ''.'') s;
          b = dropWhile (\<lambda>c. c \<noteq> CHR ''.'') s
      in if b = [] then map_option of_nat (natural_de a)
         else (case (natural_de a, natural_de (tl b)) of
                 (Some i, Some f) \<Rightarrow> Some (of_nat i + of_nat f / 10 ^ length (tl b))
               | _ \<Rightarrow> None))"

definition decimal_de :: "string \<Rightarrow> decimal option" where
  "decimal_de s =
     (case s of
        [] \<Rightarrow> None
      | c # cs \<Rightarrow>
          if c = CHR ''-'' then map_option uminus (fracao_de cs) else fracao_de s)"

definition env0 :: env where
  "env0 = \<lparr>py_int = inteiro_de, py_decimal = decimal_de,
            uuid4 = (\<lambda>n. ''uuid-'' @ replicate (Suc n) (CHR ''a''))\<rparr>"

text \<open>Two products in a store and a customer, for the same purpose.\<close>

definition loja :: "produto list" where
  "loja = [\<lparr>produto.nome = ''Book'', preco = 199 / 10, estoque = 10\<rparr>,
           \<lparr>produto.nome = ''Pen'', preco = 3 / 2, estoque = 5\<rparr>]"

definition ana :: cliente where
  "ana = Cliente_init (Pessoa_init ''Ana'' ''000'' ''ana@example.org'') ''uuid-a''"

definition balcao :: world where
  "balcao =
     \<lparr>clientes = [(''000'', ana)], produtos = [(''Book'', 0), (''Pen'', 1)], pedidos = [],
      store = loja, stdin = [], stdout = [], uuids = 1\<rparr>"

section \<open>Order totals\<close>




lemma adicionar_item_nao_positivo:
  "q \<le> 0 \<Longrightarrow> adicionar_item ped r q = Inl ValueError"
  by (simp add: adicionar_item_def ItemPedido_init_def)



section \<open>Adding a line to an open order\<close>

lemma add_line_ausente:
  "map_of (produtos w) n = None \<Longrightarrow>
   add_line E w ped n = Inr (w\<lparr>stdout := stdout w @ [ProdutoNaoEncontrado]\<rparr>, ped)"
  by (simp add: add_line_def py_print_def)

lemma add_line_presente:
  "map_of (produtos w) n = Some r \<Longrightarrow> stdin w = txt # rest \<Longrightarrow>
   add_line E w ped n =
     (let w1 = w\<lparr>stdin := rest, stdout := stdout w @ [Prompt PQuantidade]\<rparr> in
      case py_int E txt of
        None \<Rightarrow> Inr (w1\<lparr>stdout := stdout w1 @ [QuantidadeInvalida]\<rparr>, ped)
      | Some q \<Rightarrow>
          if q > estoque (store w ! r)
          then Inr (w1\<lparr>stdout := stdout w1 @ [EstoqueInsuficiente]\<rparr>, ped)
          else if q \<le> 0 then Inr (w1\<lparr>stdout := stdout w1 @ [QuantidadeInvalida]\<rparr>, ped)
          else Inr (w1\<lparr>store := (store w)[r := (store w ! r)\<lparr>estoque := estoque (store w ! r) - q\<rparr>]\<rparr>,
                    ped\<lparr>itens := itens ped @ [\<lparr>produto = r, quantidade = q\<rparr>]\<rparr>))"
  by (simp add: add_line_def py_input_def py_print_def adicionar_item_def ItemPedido_init_def
           split: option.splits)



text \<open>
  C2. A pass that fails reports the failure and changes neither the order nor the store:
  when the name is not a key of the dictionary of products the message is "product not
  found"; when the quantity read is larger than the stock it is "insufficient stock";
  when the text read is not an integer, or the integer is not positive, it is "invalid
  quantity". In each case the world differs from the one before only in the line read
  from the input and in the output, and the order is returned as it was.
\<close>

theorem add_line_falha:
  "(map_of (produtos w) n = None \<longrightarrow>
      add_line E w ped n = Inr (w\<lparr>stdout := stdout w @ [ProdutoNaoEncontrado]\<rparr>, ped)) \<and>
   (map_of (produtos w) n = Some r \<and> stdin w = txt # rest \<and> py_int E txt = Some q \<and>
    q > estoque (store w ! r) \<longrightarrow>
      add_line E w ped n =
        Inr (w\<lparr>stdin := rest, stdout := stdout w @ [Prompt PQuantidade, EstoqueInsuficiente]\<rparr>, ped)) \<and>
   (map_of (produtos w) n = Some r \<and> stdin w = txt # rest \<and>
    (py_int E txt = None \<or> py_int E txt = Some q \<and> q \<le> 0 \<and> q \<le> estoque (store w ! r)) \<longrightarrow>
      add_line E w ped n =
        Inr (w\<lparr>stdin := rest, stdout := stdout w @ [Prompt PQuantidade, QuantidadeInvalida]\<rparr>, ped))"
  by (auto simp add: add_line_ausente add_line_presente)

theorem add_line_falha_witness:
  "add_line env0 (balcao\<lparr>stdin := [''3'']\<rparr>) (Pedido_init ana) ''Lamp''
     = Inr (balcao\<lparr>stdin := [''3''], stdout := [ProdutoNaoEncontrado]\<rparr>, Pedido_init ana) \<and>
   add_line env0 (balcao\<lparr>stdin := [''20'', ''fim'']\<rparr>) (Pedido_init ana) ''Book''
     = Inr (balcao\<lparr>stdin := [''fim''], stdout := [Prompt PQuantidade, EstoqueInsuficiente]\<rparr>,
            Pedido_init ana) \<and>
   add_line env0 (balcao\<lparr>stdin := [''tres'', ''fim'']\<rparr>) (Pedido_init ana) ''Book''
     = Inr (balcao\<lparr>stdin := [''fim''], stdout := [Prompt PQuantidade, QuantidadeInvalida]\<rparr>,
            Pedido_init ana) \<and>
   add_line env0 (balcao\<lparr>stdin := [''-2'', ''fim'']\<rparr>) (Pedido_init ana) ''Book''
     = Inr (balcao\<lparr>stdin := [''fim''], stdout := [Prompt PQuantidade, QuantidadeInvalida]\<rparr>,
            Pedido_init ana)"
proof -
  have i20: "py_int env0 ''20'' = Some 20" by (simp add: env0_def) code_simp
  have itres: "py_int env0 ''tres'' = None" by (simp add: env0_def) code_simp
  have im2: "py_int env0 ''-2'' = Some (- 2)" by (simp add: env0_def) code_simp
  have a: "map_of (produtos (balcao\<lparr>stdin := [''3'']\<rparr>)) ''Lamp'' = None"
    by (simp add: balcao_def)
  have b: "map_of (produtos (balcao\<lparr>stdin := [''20'', ''fim'']\<rparr>)) ''Book'' = Some 0 \<and>
      stdin (balcao\<lparr>stdin := [''20'', ''fim'']\<rparr>) = ''20'' # [''fim''] \<and>
      py_int env0 ''20'' = Some 20 \<and>
      20 > estoque (store (balcao\<lparr>stdin := [''20'', ''fim'']\<rparr>) ! 0)"
    using i20 by (simp add: balcao_def loja_def)
  have c: "map_of (produtos (balcao\<lparr>stdin := [''tres'', ''fim'']\<rparr>)) ''Book'' = Some 0 \<and>
      stdin (balcao\<lparr>stdin := [''tres'', ''fim'']\<rparr>) = ''tres'' # [''fim''] \<and>
      py_int env0 ''tres'' = None"
    using itres by (simp add: balcao_def)
  have d: "map_of (produtos (balcao\<lparr>stdin := [''-2'', ''fim'']\<rparr>)) ''Book'' = Some 0 \<and>
      stdin (balcao\<lparr>stdin := [''-2'', ''fim'']\<rparr>) = ''-2'' # [''fim''] \<and>
      py_int env0 ''-2'' = Some (- 2) \<and> (- 2 :: int) \<le> 0 \<and>
      - 2 \<le> estoque (store (balcao\<lparr>stdin := [''-2'', ''fim'']\<rparr>) ! 0)"
    using im2 by (simp add: balcao_def loja_def)
  from a add_line_falha [of "balcao\<lparr>stdin := [''3'']\<rparr>" "''Lamp''" env0 "Pedido_init ana"]
  have 1: "add_line env0 (balcao\<lparr>stdin := [''3'']\<rparr>) (Pedido_init ana) ''Lamp''
     = Inr (balcao\<lparr>stdin := [''3''], stdout := [ProdutoNaoEncontrado]\<rparr>, Pedido_init ana)"
    by (simp add: balcao_def)
  from b add_line_falha [of "balcao\<lparr>stdin := [''20'', ''fim'']\<rparr>" "''Book''" env0
      "Pedido_init ana" 0 "''20''" "[''fim'']" 20]
  have 2: "add_line env0 (balcao\<lparr>stdin := [''20'', ''fim'']\<rparr>) (Pedido_init ana) ''Book''
     = Inr (balcao\<lparr>stdin := [''fim''], stdout := [Prompt PQuantidade, EstoqueInsuficiente]\<rparr>,
            Pedido_init ana)"
    by (simp add: balcao_def)
  from c add_line_falha [of "balcao\<lparr>stdin := [''tres'', ''fim'']\<rparr>" "''Book''" env0
      "Pedido_init ana" 0 "''tres''" "[''fim'']" 0]
  have 3: "add_line env0 (balcao\<lparr>stdin := [''tres'', ''fim'']\<rparr>) (Pedido_init ana) ''Book''
     = Inr (balcao\<lparr>stdin := [''fim''], stdout := [Prompt PQuantidade, QuantidadeInvalida]\<rparr>,
            Pedido_init ana)"
    by (simp add: balcao_def)
  from d add_line_falha [of "balcao\<lparr>stdin := [''-2'', ''fim'']\<rparr>" "''Book''" env0
      "Pedido_init ana" 0 "''-2''" "[''fim'']" "- 2"]
  have 4: "add_line env0 (balcao\<lparr>stdin := [''-2'', ''fim'']\<rparr>) (Pedido_init ana) ''Book''
     = Inr (balcao\<lparr>stdin := [''fim''], stdout := [Prompt PQuantidade, QuantidadeInvalida]\<rparr>,
            Pedido_init ana)"
    by (simp add: balcao_def)
  from 1 2 3 4 show ?thesis by blast
qed

section \<open>The loop of an order\<close>

lemma loop_fim:
  "stdin w = f # rest \<Longrightarrow> str_lower f = ''fim'' \<Longrightarrow>
   criar_pedido_loop E w ped =
     Inr (w\<lparr>stdin := rest,
            stdout := stdout w @ ProdutosDisponiveis # disponiveis w @ [Prompt PNomeProdutoOuFim]\<rparr>,
          ped)"
  by (subst criar_pedido_loop.simps) (simp add: py_input_def py_print_def)

lemma loop_passo:
  "stdin w = n # rest \<Longrightarrow> str_lower n \<noteq> ''fim'' \<Longrightarrow>
   criar_pedido_loop E w ped =
     (case add_line E
             (w\<lparr>stdout := stdout w @ ProdutosDisponiveis # disponiveis w @ [Prompt PNomeProdutoOuFim],
                stdin := rest\<rparr>)
             ped n of
        Inl x \<Rightarrow> Inl x
      | Inr (w2, ped') \<Rightarrow> criar_pedido_loop E w2 ped')"
  by (subst criar_pedido_loop.simps) (simp add: py_input_def py_print_def)


text \<open>
  C10. When the same product is named twice in one order, with quantities \<open>q1\<close> and
  \<open>q2\<close> that are positive and within the stock at the moment of each pass, and the
  order is then closed, the order has gained two items, one per pass and both for that
  product, and the stock of the product is the initial stock less \<open>q1 + q2\<close>.
\<close>

theorem mesmo_produto_duas_vezes:
  assumes "map_of (produtos w) n = Some r" and "r < length (store w)"
    and "stdin w = n # t1 # n # t2 # f # rest"
    and "str_lower n \<noteq> ''fim''" and "str_lower f = ''fim''"
    and "py_int E t1 = Some q1" and "py_int E t2 = Some q2"
    and "0 < q1" and "q1 \<le> estoque (store w ! r)"
    and "0 < q2" and "q2 \<le> estoque (store w ! r) - q1"
  shows "\<exists>w'.
     criar_pedido_loop E w ped =
       Inr (w', ped\<lparr>itens := itens ped @ [\<lparr>produto = r, quantidade = q1\<rparr>,
                                            \<lparr>produto = r, quantidade = q2\<rparr>]\<rparr>) \<and>
     length (store w') = length (store w) \<and>
     estoque (store w' ! r) = estoque (store w ! r) - (q1 + q2) \<and>
     stdin w' = rest"
proof -
  let ?s = "estoque (store w ! r)"
  let ?w0 = "w\<lparr>stdout := stdout w @ ProdutosDisponiveis # disponiveis w @ [Prompt PNomeProdutoOuFim],
      stdin := t1 # n # t2 # f # rest\<rparr>"
  let ?st1 = "(store w)[r := (store w ! r)\<lparr>estoque := ?s - q1\<rparr>]"
  let ?w1 = "?w0\<lparr>stdin := n # t2 # f # rest, stdout := stdout ?w0 @ [Prompt PQuantidade],
      store := ?st1\<rparr>"
  let ?p1 = "ped\<lparr>itens := itens ped @ [\<lparr>produto = r, quantidade = q1\<rparr>]\<rparr>"
  let ?w2 = "?w1\<lparr>stdout := stdout ?w1 @ ProdutosDisponiveis # disponiveis ?w1 @ [Prompt PNomeProdutoOuFim],
      stdin := t2 # f # rest\<rparr>"
  let ?st2 = "?st1[r := (?st1 ! r)\<lparr>estoque := estoque (?st1 ! r) - q2\<rparr>]"
  let ?w3 = "?w2\<lparr>stdin := f # rest, stdout := stdout ?w2 @ [Prompt PQuantidade],
      store := ?st2\<rparr>"
  let ?p2 = "?p1\<lparr>itens := itens ?p1 @ [\<lparr>produto = r, quantidade = q2\<rparr>]\<rparr>"
  let ?w4 = "?w3\<lparr>stdin := rest,
      stdout := stdout ?w3 @ ProdutosDisponiveis # disponiveis ?w3 @ [Prompt PNomeProdutoOuFim]\<rparr>"
  have a1: "add_line E ?w0 ped n = Inr (?w1, ?p1)"
    using assms by (simp add: add_line_presente [where rest = "n # t2 # f # rest"])
  have s1: "estoque (?st1 ! r) = ?s - q1"
    using assms by simp
  have a2: "add_line E ?w2 ?p1 n = Inr (?w3, ?p2)"
    using assms s1 by (simp add: add_line_presente [where rest = "f # rest"])
  have l1: "criar_pedido_loop E w ped = criar_pedido_loop E ?w1 ?p1"
    using assms a1 by (simp add: loop_passo [where rest = "t1 # n # t2 # f # rest"])
  have l2: "criar_pedido_loop E ?w1 ?p1 = criar_pedido_loop E ?w3 ?p2"
    using assms a2 by (simp add: loop_passo [where rest = "t2 # f # rest"])
  have l3: "criar_pedido_loop E ?w3 ?p2 = Inr (?w4, ?p2)"
    using assms by (simp add: loop_fim [where rest = rest])
  have "estoque (store ?w4 ! r) = ?s - (q1 + q2)"
    using assms by simp
  moreover have "length (store ?w4) = length (store w)" by simp
  moreover have "stdin ?w4 = rest" by simp
  moreover have "criar_pedido_loop E w ped = Inr (?w4, ?p2)"
    using l1 l2 l3 by simp
  moreover have "?p2 = ped\<lparr>itens := itens ped @ [\<lparr>produto = r, quantidade = q1\<rparr>,
                                            \<lparr>produto = r, quantidade = q2\<rparr>]\<rparr>"
    by simp
  ultimately show ?thesis by metis
qed

theorem mesmo_produto_duas_vezes_witness:
  "\<exists>w'.
     criar_pedido_loop env0 (balcao\<lparr>stdin := [''Book'', ''3'', ''Book'', ''4'', ''FIM'', ''0'']\<rparr>)
         (Pedido_init ana) =
       Inr (w', \<lparr>cliente = ana, itens = [\<lparr>produto = 0, quantidade = 3\<rparr>,
                                          \<lparr>produto = 0, quantidade = 4\<rparr>]\<rparr>) \<and>
     estoque (store w' ! 0) = 3 \<and> stdin w' = [''0'']"
proof -
  let ?w = "balcao\<lparr>stdin := [''Book'', ''3'', ''Book'', ''4'', ''FIM'', ''0'']\<rparr>"
  have h1: "map_of (produtos ?w) ''Book'' = Some 0" by (simp add: balcao_def)
  have h2: "0 < length (store ?w)" by (simp add: balcao_def loja_def)
  have h3: "stdin ?w = ''Book'' # ''3'' # ''Book'' # ''4'' # ''FIM'' # [''0'']" by simp
  have h4: "str_lower ''Book'' \<noteq> ''fim''" by code_simp
  have h5: "str_lower ''FIM'' = ''fim''" by code_simp
  have h6: "py_int env0 ''3'' = Some 3" by (simp add: env0_def) code_simp
  have h7: "py_int env0 ''4'' = Some 4" by (simp add: env0_def) code_simp
  have h8: "(0::int) < 3" and h10: "(0::int) < 4" by simp_all
  have h9: "(3::int) \<le> estoque (store ?w ! 0)" by (simp add: balcao_def loja_def)
  have h11: "(4::int) \<le> estoque (store ?w ! 0) - 3" by (simp add: balcao_def loja_def)
  from mesmo_produto_duas_vezes [OF h1 h2 h3 h4 h5 h6 h7 h8 h9 h10 h11, of "Pedido_init ana"]
  show ?thesis by (auto simp add: balcao_def loja_def Pedido_init_def)
qed

section \<open>Starting and closing an order\<close>



text \<open>
  C9. When the customer is registered and the first line read in the order loop is the
  sentinel (\<open>fim\<close> in any mix of upper and lower case), the order is closed with no
  items: it is appended at the end of the list of orders, and the total printed, which is
  the total of that order, is 0.
\<close>

theorem pedido_sem_itens:
  assumes "map_of (clientes w) c = Some cl" and "stdin w = f # rest"
    and "str_lower f = ''fim''"
  shows "criar_pedido E w c =
       Inr (w\<lparr>stdin := rest,
              stdout := stdout w @ ProdutosDisponiveis # disponiveis w
                          @ [Prompt PNomeProdutoOuFim, TotalDoPedido 0],
              pedidos := pedidos w @ [\<lparr>cliente = cl, itens = []\<rparr>]\<rparr>) \<and>
     Pedido_calcular_total (store w) \<lparr>cliente = cl, itens = []\<rparr> = 0"
  using assms
  by (simp add: criar_pedido_def loop_fim [where rest = rest] py_print_def Pedido_init_def
        Pedido_calcular_total_def)

theorem pedido_sem_itens_witness:
  "criar_pedido env0 (balcao\<lparr>stdin := [''Fim'', ''0'']\<rparr>) ''000'' =
     Inr (balcao\<lparr>stdin := [''0''],
                 stdout := [ProdutosDisponiveis, ProdutoDisponivel ''Book'' (199 / 10) 10,
                            ProdutoDisponivel ''Pen'' (3 / 2) 5, Prompt PNomeProdutoOuFim,
                            TotalDoPedido 0],
                 pedidos := [\<lparr>cliente = ana, itens = []\<rparr>]\<rparr>) \<and>
   Pedido_calcular_total loja \<lparr>cliente = ana, itens = []\<rparr> = 0"
proof -
  let ?w = "balcao\<lparr>stdin := [''Fim'', ''0'']\<rparr>"
  have h1: "map_of (clientes ?w) ''000'' = Some ana" by (simp add: balcao_def)
  have h2: "stdin ?w = ''Fim'' # [''0'']" by simp
  have h3: "str_lower ''Fim'' = ''fim''" by code_simp
  from pedido_sem_itens [OF h1 h2 h3, of env0]
  show ?thesis by (simp add: balcao_def loja_def disponiveis_def)
qed

section \<open>Registering a product\<close>



section \<open>What the loops preserve\<close>

lemma mundo_simps [simp]:
  "mundo f (Inl (x, w)) = w" "mundo f (Inr a) = f a"
  by (simp_all add: mundo_def)

lemma py_input_preserva:
  assumes "\<And>w os. P w \<Longrightarrow> P (w\<lparr>stdout := os\<rparr>)" and "\<And>w ins. P w \<Longrightarrow> P (w\<lparr>stdin := ins\<rparr>)"
    and "P w"
  shows "P (mundo snd (py_input p w))"
  using assms by (simp add: py_input_def py_print_def split: list.splits)

lemma loop_preserva:
  assumes out: "\<And>w os. P w \<Longrightarrow> P (w\<lparr>stdout := os\<rparr>)"
    and inp: "\<And>w ins. P w \<Longrightarrow> P (w\<lparr>stdin := ins\<rparr>)"
    and al: "\<forall>w ped n. P w \<longrightarrow> P (mundo fst (add_line E w ped n))"
    and w: "P w"
  shows "P (mundo fst (criar_pedido_loop E w ped))"
  using al w
proof (induction E w ped rule: criar_pedido_loop.induct)
  case (1 E w ped)
  let ?w0 = "py_print (ProdutosDisponiveis # disponiveis w) w"
  have p0: "P ?w0" using "1.prems" by (simp add: py_print_def out)
  show ?case
  proof (cases "py_input PNomeProdutoOuFim ?w0")
    case (Inl a)
    with py_input_preserva [of P ?w0 PNomeProdutoOuFim, OF out inp p0]
    show ?thesis by (subst criar_pedido_loop.simps) (simp add: mundo_def)
  next
    case (Inr b)
    obtain nome_produto w1 where b: "b = (nome_produto, w1)" by (cases b)
    from Inr b py_input_preserva [of P ?w0 PNomeProdutoOuFim, OF out inp p0]
    have p1: "P w1" by simp
    show ?thesis
    proof (cases "str_lower nome_produto = ''fim''")
      case True
      with Inr b p1 show ?thesis by (subst criar_pedido_loop.simps) simp
    next
      case False
      from "1.prems" p1 have p2: "P (mundo fst (add_line E w1 ped nome_produto))" by blast
      show ?thesis
      proof (cases "add_line E w1 ped nome_produto")
        case (Inl a)
        with Inr b False p2 show ?thesis
          by (subst criar_pedido_loop.simps) (simp add: mundo_def)
      next
        case r2: (Inr c)
        obtain w2 ped' where c: "c = (w2, ped')" by (cases c)
        from r2 c p2 have "P w2" by simp
        with "1.IH" [OF Inr [unfolded b] refl False r2 [unfolded c] refl] "1.prems"
        have "P (mundo fst (criar_pedido_loop E w2 ped'))" by blast
        with Inr b False r2 c show ?thesis
          by (subst criar_pedido_loop.simps) simp
      qed
    qed
  qed
qed

lemma exibir_menu_preserva:
  assumes out: "\<And>w os. P w \<Longrightarrow> P (w\<lparr>stdout := os\<rparr>)"
    and inp: "\<And>w ins. P w \<Longrightarrow> P (w\<lparr>stdin := ins\<rparr>)"
    and op: "\<forall>w escolha. P w \<longrightarrow> P (mundo fst (opcao_menu E w escolha))"
    and w: "P w"
  shows "P (mundo id (exibir_menu E w))"
  using op w
proof (induction E w rule: exibir_menu.induct)
  case (1 E w)
  let ?w0 = "py_print menu_texto w"
  have p0: "P ?w0" using "1.prems" by (simp add: py_print_def out)
  show ?case
  proof (cases "py_input PEscolha ?w0")
    case (Inl a)
    with py_input_preserva [of P ?w0 PEscolha, OF out inp p0]
    show ?thesis by (subst exibir_menu.simps) (simp add: mundo_def)
  next
    case (Inr b)
    obtain escolha w1 where b: "b = (escolha, w1)" by (cases b)
    from Inr b py_input_preserva [of P ?w0 PEscolha, OF out inp p0]
    have p1: "P w1" by simp
    from "1.prems" p1 have p2: "P (mundo fst (opcao_menu E w1 escolha))" by blast
    show ?thesis
    proof (cases "opcao_menu E w1 escolha")
      case (Inl a)
      with Inr b p2 show ?thesis
        by (subst exibir_menu.simps) (simp add: mundo_def)
    next
      case r2: (Inr c)
      obtain w2 continua where c: "c = (w2, continua)" by (cases c)
      from r2 c p2 have pw2: "P w2" by simp
      show ?thesis
      proof (cases continua)
        case True
        with "1.IH" [OF Inr [unfolded b] refl r2 [unfolded c] refl] "1.prems" pw2
        have "P (mundo id (exibir_menu E w2))" by blast
        with Inr b r2 c True show ?thesis
          by (subst exibir_menu.simps) simp
      next
        case False
        with Inr b r2 c pw2 show ?thesis
          by (subst exibir_menu.simps) simp
      qed
    qed
  qed
qed

section \<open>Prices and stocks are never negative\<close>

lemma estoque_valido_stdout [simp]: "estoque_valido (w\<lparr>stdout := os\<rparr>) = estoque_valido w"
  by (simp add: estoque_valido_def)

lemma estoque_valido_stdin [simp]: "estoque_valido (w\<lparr>stdin := ins\<rparr>) = estoque_valido w"
  by (simp add: estoque_valido_def)

lemma estoque_valido_pedidos [simp]: "estoque_valido (w\<lparr>pedidos := ps\<rparr>) = estoque_valido w"
  by (simp add: estoque_valido_def)

lemma estoque_valido_print [simp]: "estoque_valido (py_print os w) = estoque_valido w"
  by (simp add: py_print_def)

lemma estoque_valido_novo: "estoque_valido (Menu_init ins)"
  by (simp add: estoque_valido_def Menu_init_def)

lemma estoque_valido_cliente:
  "estoque_valido w \<Longrightarrow> estoque_valido (cadastrar_cliente E w n c e)"
  by (simp add: cadastrar_cliente_def Let_def estoque_valido_def py_print_def)

lemma set_update_subset: "set (AList.update k v al) \<subseteq> insert (k, v) (set al)"
  by (induction al) auto

lemma estoque_valido_produto:
  assumes "estoque_valido w"
  shows "estoque_valido (mundo id (cadastrar_produto w n p q))"
proof (cases "p < 0 \<or> q < 0")
  case True
  with assms show ?thesis by (simp add: cadastrar_produto_def Produto_init_def)
next
  case False
  let ?novo = "\<lparr>produto.nome = n, preco = p, estoque = q\<rparr>"
  let ?w = "w\<lparr>produtos := AList.update n (length (store w)) (produtos w),
               store := store w @ [?novo]\<rparr>"
  have "estoque_valido ?w"
    unfolding estoque_valido_def
  proof (clarify)
    fix m r assume "(m, r) \<in> set (produtos ?w)"
    then have "(m, r) = (n, length (store w)) \<or> (m, r) \<in> set (produtos w)"
      using set_update_subset [of n "length (store w)" "produtos w"] by auto
    then show "r < length (store ?w) \<and> 0 \<le> preco (store ?w ! r) \<and> 0 \<le> estoque (store ?w ! r)"
    proof
      assume "(m, r) = (n, length (store w))"
      with False show ?thesis by simp
    next
      assume "(m, r) \<in> set (produtos w)"
      with assms have "r < length (store w) \<and> 0 \<le> preco (store w ! r) \<and> 0 \<le> estoque (store w ! r)"
        by (auto simp add: estoque_valido_def)
      then show ?thesis by (simp add: nth_append)
    qed
  qed
  with False show ?thesis by (simp add: cadastrar_produto_def Produto_init_def)
qed

lemma estoque_valido_debito:
  assumes v: "estoque_valido w" and q: "q \<le> estoque (store w ! r)"
  shows "estoque_valido (w\<lparr>store := (store w)[r := (store w ! r)\<lparr>estoque := estoque (store w ! r) - q\<rparr>]\<rparr>)"
  unfolding estoque_valido_def
proof (clarify)
  let ?w = "w\<lparr>store := (store w)[r := (store w ! r)\<lparr>estoque := estoque (store w ! r) - q\<rparr>]\<rparr>"
  fix m r' assume "(m, r') \<in> set (produtos ?w)"
  with v have old: "r' < length (store w) \<and> 0 \<le> preco (store w ! r') \<and> 0 \<le> estoque (store w ! r')"
    by (auto simp add: estoque_valido_def)
  show "r' < length (store ?w) \<and> 0 \<le> preco (store ?w ! r') \<and> 0 \<le> estoque (store ?w ! r')"
  proof (cases "r' = r")
    case True
    with old q show ?thesis by simp
  next
    case False
    with old show ?thesis by simp
  qed
qed

lemma estoque_valido_linha:
  assumes "estoque_valido w"
  shows "estoque_valido (mundo fst (add_line E w ped n))"
proof (cases "map_of (produtos w) n")
  case None
  with assms show ?thesis by (simp add: add_line_ausente)
next
  case (Some r)
  show ?thesis
  proof (cases "stdin w")
    case Nil
    with Some assms show ?thesis by (simp add: add_line_def py_input_def)
  next
    case (Cons t rest)
    let ?w1 = "w\<lparr>stdin := rest, stdout := stdout w @ [Prompt PQuantidade]\<rparr>"
    have v1: "estoque_valido ?w1" using assms by simp
    show ?thesis
    proof (cases "py_int E t")
      case None
      with Some Cons assms show ?thesis by (simp add: add_line_presente Let_def)
    next
      case q: (Some q)
      show ?thesis
      proof (cases "q > estoque (store w ! r) \<or> q \<le> 0")
        case True
        with Some Cons q assms show ?thesis by (auto simp add: add_line_presente Let_def)
      next
        case False
        then have "q \<le> estoque (store ?w1 ! r)" by simp
        from estoque_valido_debito [OF v1 this] Some Cons q False
        show ?thesis by (simp add: add_line_presente Let_def)
      qed
    qed
  qed
qed

lemma estoque_valido_linhas:
  "estoque_valido w \<Longrightarrow> estoque_valido (mundo fst (criar_pedido_loop E w ped))"
  by (rule loop_preserva [where P = estoque_valido]) (simp_all add: estoque_valido_linha)

lemma estoque_valido_pedido:
  assumes "estoque_valido w"
  shows "estoque_valido (mundo id (criar_pedido E w c))"
proof (cases "map_of (clientes w) c")
  case None
  with assms show ?thesis by (simp add: criar_pedido_def)
next
  case (Some cl)
  from assms have "estoque_valido (mundo fst (criar_pedido_loop E w (Pedido_init cl)))"
    by (rule estoque_valido_linhas)
  with Some show ?thesis
    by (cases "criar_pedido_loop E w (Pedido_init cl)") (auto simp add: criar_pedido_def)
qed

lemma estoque_valido_listagem: "estoque_valido (listar_pedidos w) = estoque_valido w"
  by (simp add: listar_pedidos_def)

lemma estoque_valido_input:
  assumes "estoque_valido w"
    and "\<And>l w'. estoque_valido w' \<Longrightarrow> estoque_valido (mundo f (k l w'))"
  shows "estoque_valido (mundo f (case py_input p w of Inl x \<Rightarrow> Inl x | Inr (l, w') \<Rightarrow> k l w'))"
proof (cases "stdin w")
  case Nil
  with assms(1) show ?thesis by (simp add: py_input_def)
next
  case (Cons l ls)
  have "estoque_valido (mundo f (k l (w\<lparr>stdout := stdout w @ [Prompt p], stdin := ls\<rparr>)))"
    using assms(1) by (intro assms(2)) simp
  with Cons show ?thesis by (simp add: py_input_def py_print_def)
qed

lemma estoque_valido_opcao1:
  assumes "estoque_valido w"
  shows "estoque_valido (mundo fst
     (case py_input PNome w of Inl x \<Rightarrow> Inl x | Inr (n, w1) \<Rightarrow>
      (case py_input PCpf w1 of Inl x \<Rightarrow> Inl x | Inr (c, w2) \<Rightarrow>
       (case py_input PEmail w2 of Inl x \<Rightarrow> Inl x | Inr (e, w3) \<Rightarrow>
          Inr (cadastrar_cliente E w3 n c e, True)))))"
  using assms
  by (intro estoque_valido_input) (simp_all add: estoque_valido_cliente)

lemma estoque_valido_opcao2:
  assumes "estoque_valido w"
  shows "estoque_valido (mundo fst
     (case py_input PNomeDoProduto w of Inl x \<Rightarrow> Inl x | Inr (n, w1) \<Rightarrow>
      (case py_input PPreco w1 of Inl x \<Rightarrow> Inl x | Inr (tp, w2) \<Rightarrow>
       (case py_decimal E tp of None \<Rightarrow> Inl (InvalidOperation, w2) | Some p \<Rightarrow>
        (case py_input PEstoque w2 of Inl x \<Rightarrow> Inl x | Inr (te, w3) \<Rightarrow>
         (case py_int E te of None \<Rightarrow> Inl (ValueError, w3) | Some e \<Rightarrow>
          (case cadastrar_produto w3 n p e of Inl x \<Rightarrow> Inl x
           | Inr w4 \<Rightarrow> Inr (w4, True))))))))"
proof -
  have p: "estoque_valido (mundo fst (case cadastrar_produto w n p q of Inl x \<Rightarrow> Inl x
                                      | Inr w4 \<Rightarrow> Inr (w4, True)))"
    if "estoque_valido w" for w n p q
    using estoque_valido_produto [OF that, of n p q]
    by (cases "cadastrar_produto w n p q") auto
  have e: "estoque_valido (mundo fst
       (case py_int E te of None \<Rightarrow> Inl (ValueError, w3) | Some e \<Rightarrow>
          (case cadastrar_produto w3 n p e of Inl x \<Rightarrow> Inl x | Inr w4 \<Rightarrow> Inr (w4, True))))"
    if "estoque_valido w3" for w3 n p te
    using that p [OF that] by (cases "py_int E te") simp_all
  have d: "estoque_valido (mundo fst
       (case py_decimal E tp of None \<Rightarrow> Inl (InvalidOperation, w2) | Some p \<Rightarrow>
        (case py_input PEstoque w2 of Inl x \<Rightarrow> Inl x | Inr (te, w3) \<Rightarrow>
         (case py_int E te of None \<Rightarrow> Inl (ValueError, w3) | Some e \<Rightarrow>
          (case cadastrar_produto w3 n p e of Inl x \<Rightarrow> Inl x
           | Inr w4 \<Rightarrow> Inr (w4, True))))))"
    if "estoque_valido w2" for w2 n tp
  proof (cases "py_decimal E tp")
    case None
    with that show ?thesis by simp
  next
    case (Some p)
    have "estoque_valido (mundo fst
        (case py_input PEstoque w2 of Inl x \<Rightarrow> Inl x | Inr (te, w3) \<Rightarrow>
         (case py_int E te of None \<Rightarrow> Inl (ValueError, w3) | Some e \<Rightarrow>
          (case cadastrar_produto w3 n p e of Inl x \<Rightarrow> Inl x
           | Inr w4 \<Rightarrow> Inr (w4, True)))))"
      using that by (rule estoque_valido_input) (rule e)
    with Some show ?thesis by simp
  qed
  show ?thesis
    using assms
    by (rule estoque_valido_input) (rule estoque_valido_input, assumption, rule d)
qed

lemma estoque_valido_opcao3:
  assumes "estoque_valido w"
  shows "estoque_valido (mundo fst
     (case py_input PCpfDoCliente w of Inl x \<Rightarrow> Inl x | Inr (c, w1) \<Rightarrow>
      (case criar_pedido E w1 c of Inl x \<Rightarrow> Inl x | Inr w2 \<Rightarrow> Inr (w2, True))))"
proof -
  have c: "estoque_valido (mundo fst (case criar_pedido E w c of Inl x \<Rightarrow> Inl x
                                      | Inr w2 \<Rightarrow> Inr (w2, True)))"
    if "estoque_valido w" for w c
    using estoque_valido_pedido [OF that, of E c]
    by (cases "criar_pedido E w c") auto
  show ?thesis using assms by (rule estoque_valido_input) (rule c)
qed

lemma estoque_valido_opcao:
  assumes "estoque_valido w"
  shows "estoque_valido (mundo fst (opcao_menu E w escolha))"
  unfolding opcao_menu_def
  using assms estoque_valido_opcao1 [OF assms, of E] estoque_valido_opcao2 [OF assms, of E]
    estoque_valido_opcao3 [OF assms, of E]
  by (simp add: estoque_valido_listagem)

lemma estoque_valido_menu:
  "estoque_valido w \<Longrightarrow> estoque_valido (mundo id (exibir_menu E w))"
  by (rule exibir_menu_preserva [where P = estoque_valido]) (simp_all add: estoque_valido_opcao)

lemma alcancavel_valido: "alcancavel E w \<Longrightarrow> estoque_valido w"
proof (induction rule: alcancavel.induct)
  case (novo ins)
  show ?case by (rule estoque_valido_novo)
next
  case (entrada w ins)
  then show ?case by simp
next
  case (cliente w n c e)
  then show ?case by (simp add: estoque_valido_cliente)
next
  case (produto w n p q)
  then show ?case by (simp add: estoque_valido_produto)
next
  case (linha w ped n)
  then show ?case by (simp add: estoque_valido_linha)
next
  case (linhas w ped)
  then show ?case by (simp add: estoque_valido_linhas)
next
  case (pedido w c)
  then show ?case by (simp add: estoque_valido_pedido)
next
  case (listagem w)
  then show ?case by (simp add: estoque_valido_listagem)
next
  case (opcao w escolha)
  then show ?case by (simp add: estoque_valido_opcao)
next
  case (menu w)
  then show ?case by (simp add: estoque_valido_menu)
qed

lemma estoque_valido_entrada:
  "estoque_valido w \<Longrightarrow> map_of (produtos w) n = Some r \<Longrightarrow>
   r < length (store w) \<and> 0 \<le> preco (store w ! r) \<and> 0 \<le> estoque (store w ! r)"
  by (auto simp add: estoque_valido_def dest!: map_of_SomeD)

text \<open>
  C3. In every reachable world, whatever registrations, passes of the order loop, orders,
  listings and menu sessions led to it and whether they returned or raised, every
  product that the dictionary holds has a price and a stock that are not negative. In
  particular this holds in the world in which a pass of the order loop ends, so no
  attempt to add a line brings a stock below zero.
\<close>

theorem preco_e_estoque_nao_negativos:
  "(alcancavel E w \<and> map_of (produtos w) n = Some r \<longrightarrow>
      r < length (store w) \<and> 0 \<le> preco (store w ! r) \<and> 0 \<le> estoque (store w ! r)) \<and>
   (alcancavel E w \<and> map_of (produtos (mundo fst (add_line E w ped m))) n = Some r \<longrightarrow>
      0 \<le> estoque (store (mundo fst (add_line E w ped m)) ! r))"
proof -
  have 1: "r < length (store w) \<and> 0 \<le> preco (store w ! r) \<and> 0 \<le> estoque (store w ! r)"
    if "alcancavel E w \<and> map_of (produtos w) n = Some r"
    using that alcancavel_valido estoque_valido_entrada by blast
  have 2: "0 \<le> estoque (store (mundo fst (add_line E w ped m)) ! r)"
    if a: "alcancavel E w \<and> map_of (produtos (mundo fst (add_line E w ped m))) n = Some r"
  proof -
    from a have "alcancavel E (mundo fst (add_line E w ped m))"
      by (blast intro: alcancavel.linha)
    then have "estoque_valido (mundo fst (add_line E w ped m))"
      by (rule alcancavel_valido)
    with a show ?thesis
      using estoque_valido_entrada by blast
  qed
  from 1 2 show ?thesis by blast
qed

theorem preco_e_estoque_nao_negativos_witness:
  "alcancavel env0 (mundo id (cadastrar_produto (Menu_init [''10'']) ''Book'' (199 / 10) 10)) \<and>
   map_of (produtos (mundo id (cadastrar_produto (Menu_init [''10'']) ''Book'' (199 / 10) 10)))
       ''Book'' = Some 0 \<and>
   0 \<le> preco (store (mundo id (cadastrar_produto (Menu_init [''10'']) ''Book'' (199 / 10) 10)) ! 0) \<and>
   map_of (produtos (mundo fst (add_line env0
       (mundo id (cadastrar_produto (Menu_init [''10'']) ''Book'' (199 / 10) 10))
       (Pedido_init ana) ''Book''))) ''Book'' = Some 0 \<and>
   0 \<le> estoque (store (mundo fst (add_line env0
       (mundo id (cadastrar_produto (Menu_init [''10'']) ''Book'' (199 / 10) 10))
       (Pedido_init ana) ''Book'')) ! 0) \<and>
   estoque (store (mundo fst (add_line env0
       (mundo id (cadastrar_produto (Menu_init [''10'']) ''Book'' (199 / 10) 10))
       (Pedido_init ana) ''Book'')) ! 0) = 0"
proof -
  let ?w1 = "mundo id (cadastrar_produto (Menu_init [''10'']) ''Book'' (199 / 10) 10)"
  let ?w2 = "mundo fst (add_line env0 ?w1 (Pedido_init ana) ''Book'')"
  have i10: "py_int env0 ''10'' = Some 10" by (simp add: env0_def) code_simp
  have w1: "?w1 = \<lparr>clientes = [], produtos = [(''Book'', 0)], pedidos = [],
      store = [\<lparr>produto.nome = ''Book'', preco = 199 / 10, estoque = 10\<rparr>],
      stdin = [''10''],
      stdout = [ProdutoCadastrado \<lparr>produto.nome = ''Book'', preco = 199 / 10, estoque = 10\<rparr>],
      uuids = 0\<rparr>"
    by (simp add: cadastrar_produto_def Produto_init_def Menu_init_def py_print_def)
  have r1: "alcancavel env0 ?w1"
    by (intro alcancavel.produto alcancavel.novo)
  have m1: "map_of (produtos ?w1) ''Book'' = Some 0" by (simp add: w1)
  have w2: "store ?w2 = [\<lparr>produto.nome = ''Book'', preco = 199 / 10, estoque = 0\<rparr>] \<and>
      produtos ?w2 = [(''Book'', 0)]"
    using i10 by (simp add: w1 add_line_presente [where rest = "[]"] Let_def)
  then have m2: "map_of (produtos ?w2) ''Book'' = Some 0" by simp
  from preco_e_estoque_nao_negativos [of env0 ?w1 "''Book''" 0 "Pedido_init ana" "''Book''"] r1 m1 m2
  have "0 \<le> preco (store ?w1 ! 0) \<and> 0 \<le> estoque (store ?w2 ! 0)" by blast
  moreover from w2 have "estoque (store ?w2 ! 0) = 0" by simp
  ultimately show ?thesis using r1 m1 m2 by blast
qed

section \<open>The list of orders and its listing\<close>








section \<open>Errors at the menu\<close>

lemma exibir_menu_opcao:
  "stdin w = escolha # rest \<Longrightarrow>
   exibir_menu E w =
     (case opcao_menu E (w\<lparr>stdout := stdout w @ menu_texto @ [Prompt PEscolha], stdin := rest\<rparr>)
             escolha of
        Inl x \<Rightarrow> Inl x
      | Inr (w2, continua) \<Rightarrow> if continua then exibir_menu E w2 else Inr w2)"
  by (subst exibir_menu.simps) (simp add: py_input_def py_print_def)

text \<open>
  Option 2 has no handler: when \<open>Decimal\<close> rejects the text of the price, when \<open>int\<close>
  rejects the text of the stock, or when \<open>Produto\<close> rejects a negative price or stock,
  the exception leaves \<open>exibir_menu\<close>. Nothing is printed after the prompts, no product
  is registered and the rest of the input is never read.
\<close>

lemma opcao_2_excecao:
  assumes "stdin w = ''2'' # n # tp # te # rest"
  shows "exibir_menu E w =
    (let w2 = w\<lparr>stdout := stdout w @ menu_texto
                   @ [Prompt PEscolha, Prompt PNomeDoProduto, Prompt PPreco],
                 stdin := te # rest\<rparr>;
         w3 = w2\<lparr>stdout := stdout w2 @ [Prompt PEstoque], stdin := rest\<rparr>
     in case py_decimal E tp of
          None \<Rightarrow> Inl (InvalidOperation, w2)
        | Some p \<Rightarrow>
            (case py_int E te of
               None \<Rightarrow> Inl (ValueError, w3)
             | Some e \<Rightarrow>
                 if p < 0 \<or> e < 0 then Inl (ValueError, w3)
                 else exibir_menu E
                        (w3\<lparr>produtos := AList.update n (length (store w)) (produtos w),
                            store := store w @ [\<lparr>produto.nome = n, preco = p, estoque = e\<rparr>],
                            stdout := stdout w3 @
                              [ProdutoCadastrado \<lparr>produto.nome = n, preco = p, estoque = e\<rparr>]\<rparr>)))"
  using assms
  by (simp add: exibir_menu_opcao [where rest = "n # tp # te # rest"] opcao_menu_def
        py_input_def py_print_def cadastrar_produto_def Produto_init_def Let_def
      split: option.splits)

text \<open>
  C4. The run of the menu on the lines \<open>2\<close>, \<open>Book\<close>, \<open>-1\<close>, \<open>5\<close>, \<open>0\<close> ends with
  \<open>ValueError\<close>, the run on \<open>2\<close>, \<open>Book\<close>, \<open>abc\<close>, \<open>5\<close>, \<open>0\<close> with
  \<open>InvalidOperation\<close> and the run on \<open>2\<close>, \<open>Book\<close>, \<open>10\<close>, \<open>x\<close>, \<open>0\<close> with \<open>ValueError\<close>:
  in each the exception leaves the loop, the output holds the menu and the prompts and no
  message, and the final \<open>0\<close> is not read.
\<close>

theorem opcao_2_encerra_o_menu:
  "exibir_menu env0 (Menu_init [''2'', ''Book'', ''-1'', ''5'', ''0'']) =
     Inl (ValueError,
          (Menu_init [''0''])
            \<lparr>stdout := menu_texto @ [Prompt PEscolha, Prompt PNomeDoProduto, Prompt PPreco,
                                     Prompt PEstoque]\<rparr>) \<and>
   exibir_menu env0 (Menu_init [''2'', ''Book'', ''abc'', ''5'', ''0'']) =
     Inl (InvalidOperation,
          (Menu_init [''5'', ''0''])
            \<lparr>stdout := menu_texto @ [Prompt PEscolha, Prompt PNomeDoProduto, Prompt PPreco]\<rparr>) \<and>
   exibir_menu env0 (Menu_init [''2'', ''Book'', ''10'', ''x'', ''0'']) =
     Inl (ValueError,
          (Menu_init [''0''])
            \<lparr>stdout := menu_texto @ [Prompt PEscolha, Prompt PNomeDoProduto, Prompt PPreco,
                                     Prompt PEstoque]\<rparr>)"
proof -
  have d1: "py_decimal env0 ''-1'' = Some (- 1)" by (simp add: env0_def) code_simp
  have d2: "py_decimal env0 ''abc'' = None" by (simp add: env0_def) code_simp
  have d3: "py_decimal env0 ''10'' = Some 10" by (simp add: env0_def) code_simp
  have i1: "py_int env0 ''5'' = Some 5" by (simp add: env0_def) code_simp
  have i3: "py_int env0 ''x'' = None" by (simp add: env0_def) code_simp
  have 1: "exibir_menu env0 (Menu_init [''2'', ''Book'', ''-1'', ''5'', ''0'']) =
     Inl (ValueError,
          (Menu_init [''0''])
            \<lparr>stdout := menu_texto @ [Prompt PEscolha, Prompt PNomeDoProduto, Prompt PPreco,
                                     Prompt PEstoque]\<rparr>)"
    using d1 i1
    by (simp add: opcao_2_excecao [where rest = "[''0'']"] Menu_init_def)
  have 2: "exibir_menu env0 (Menu_init [''2'', ''Book'', ''abc'', ''5'', ''0'']) =
     Inl (InvalidOperation,
          (Menu_init [''5'', ''0''])
            \<lparr>stdout := menu_texto @ [Prompt PEscolha, Prompt PNomeDoProduto, Prompt PPreco]\<rparr>)"
    using d2
    by (simp add: opcao_2_excecao [where rest = "[''0'']"] Menu_init_def)
  have 3: "exibir_menu env0 (Menu_init [''2'', ''Book'', ''10'', ''x'', ''0'']) =
     Inl (ValueError,
          (Menu_init [''0''])
            \<lparr>stdout := menu_texto @ [Prompt PEscolha, Prompt PNomeDoProduto, Prompt PPreco,
                                     Prompt PEstoque]\<rparr>)"
    using d3 i3
    by (simp add: opcao_2_excecao [where rest = "[''0'']"] Menu_init_def)
  from 1 2 3 show ?thesis by blast
qed

end
